theory Spec2Isabelle
  imports Complex_Main
begin

section \<open>Slack message handlers of sirbot-pyslackers\<close>

text \<open>
  A shallow embedding of \<^verbatim>\<open>endpoints/slack/messages.py\<close>. Every handler of the module
  is a function from the application context and a state to an outcome and a new state.
  The state holds the \<^verbatim>\<open>Message\<close> object the handler received (handlers can assign to its
  keys) and a record of every interaction with a collaborator: log records, calls of the
  Slack API, HTTP requests, calls of the quote API and database statements.
  An exception is a value: the outcome \<open>Inl e\<close> says that \<open>e\<close> left the handler body.
\<close>

subsection \<open>Python values, exceptions and strings\<close>

datatype exn =
    KeyError string
  | IndexError
  | TypeError
  | ValueError
  | OverflowError
  | OSError
  | UnboundLocalError string
  | ClientResponseError int
  | SlackAPIError string
  | UniqueViolationError
  | OtherError string

datatype json =
    JNull
  | JBool bool
  | JNum rat
  | JStr string
  | JList "json list"
  | JObj "(string \<times> json) list"

type_synonym pydict = "(string \<times> json) list"

text \<open>\<^verbatim>\<open>d[k] = v\<close> on a dict: an existing key keeps its place, a new one goes last.\<close>

fun dict_set :: "string \<Rightarrow> json \<Rightarrow> pydict \<Rightarrow> pydict" where
  "dict_set k v [] = [(k, v)]"
| "dict_set k v ((k', v') # d) = (if k' = k then (k, v) # d else (k', v') # dict_set k v d)"

text \<open>\<^verbatim>\<open>x[k]\<close> with a string key: only a dict has string keys.\<close>

fun getitem :: "json \<Rightarrow> string \<Rightarrow> exn + json" where
  "getitem (JObj d) k = (case map_of d k of None \<Rightarrow> Inl (KeyError k) | Some v \<Rightarrow> Inr v)"
| "getitem _ k = Inl TypeError"

text \<open>
  Characters are code points below 256. The classes are those of Python's \<^verbatim>\<open>str\<close> methods
  and of \<^verbatim>\<open>re\<close> on \<^verbatim>\<open>str\<close> patterns, restricted to that range.
\<close>

definition in_range :: "nat \<Rightarrow> nat \<Rightarrow> char \<Rightarrow> bool" where
  "in_range lo hi c = (lo \<le> of_char c \<and> of_char c \<le> hi)"

definition is_upper :: "char \<Rightarrow> bool" where
  "is_upper c = in_range 65 90 c"

definition is_lower :: "char \<Rightarrow> bool" where
  "is_lower c = in_range 97 122 c"

definition is_digit :: "char \<Rightarrow> bool" where
  "is_digit c = in_range 48 57 c"

definition swapcase :: "char \<Rightarrow> char" where
  "swapcase c = (if is_upper c then char_of (of_char c + (32::nat))
                 else if is_lower c then char_of (of_char c - (32::nat)) else c)"

definition is_word :: "char \<Rightarrow> bool" where
  \<comment> \<open>\<^verbatim>\<open>\w\<close>: alphanumeric or underscore\<close>
  "is_word c = (is_digit c \<or> is_upper c \<or> is_lower c \<or> c = CHR ''_''
      \<or> of_char c \<in> {170, 178, 179, 181, 185, 186, 188, 189, 190::nat}
      \<or> in_range 192 214 c \<or> in_range 216 246 c \<or> in_range 248 255 c)"

definition is_space :: "char \<Rightarrow> bool" where
  \<comment> \<open>\<^verbatim>\<open>str.isspace\<close>\<close>
  "is_space c = (in_range 9 13 c \<or> in_range 28 32 c \<or> of_char c \<in> {133, 160::nat})"

definition startswith :: "string \<Rightarrow> string \<Rightarrow> bool" where
  "startswith s p = (take (length p) s = p)"

text \<open>\<^verbatim>\<open>s.count(sub)\<close> for a non-empty \<^verbatim>\<open>sub\<close>: occurrences that do not overlap, from the left.\<close>

fun count_from :: "nat \<Rightarrow> string \<Rightarrow> string \<Rightarrow> nat" where
  "count_from skip sub [] = 0"
| "count_from skip sub (c # cs) =
     (if skip = 0 \<and> startswith (c # cs) sub
      then Suc (count_from (length sub - 1) sub cs)
      else count_from (skip - 1) sub cs)"

definition py_count :: "string \<Rightarrow> string \<Rightarrow> nat" where
  "py_count s sub = count_from 0 sub s"

text \<open>\<^verbatim>\<open>s.find(sub)\<close>: the lowest index, or -1.\<close>

fun find_index :: "string \<Rightarrow> string \<Rightarrow> nat option" where
  "find_index sub [] = (if sub = [] then Some 0 else None)"
| "find_index sub (c # cs) =
     (if startswith (c # cs) sub then Some 0 else map_option Suc (find_index sub cs))"

definition py_find :: "string \<Rightarrow> string \<Rightarrow> int" where
  "py_find s sub = (case find_index sub s of None \<Rightarrow> - 1 | Some i \<Rightarrow> int i)"

text \<open>\<^verbatim>\<open>s.split()\<close>: the maximal runs without white space; the first argument is the run being read, reversed.\<close>

fun split_ws :: "string \<Rightarrow> string \<Rightarrow> string list" where
  "split_ws w [] = (if w = [] then [] else [rev w])"
| "split_ws w (c # cs) =
     (if is_space c then (if w = [] then split_ws [] cs else rev w # split_ws [] cs)
      else split_ws (c # w) cs)"

definition py_split :: "string \<Rightarrow> string list" where
  "py_split s = split_ws [] s"

text \<open>\<^verbatim>\<open>s[i:]\<close> for an integer \<^verbatim>\<open>i\<close>; a negative index counts from the end.\<close>

definition slice_from :: "string \<Rightarrow> int \<Rightarrow> string" where
  "slice_from s i = (if i < 0 then drop (nat (int (length s) + i)) s else drop (nat i) s)"

text \<open>
  \<^verbatim>\<open>int(s)\<close> on a string: white space around, an optional sign, decimal digits with single
  underscores between them, and at most 4300 digits (the default limit of the conversion).
\<close>

definition digit_val :: "char \<Rightarrow> int" where
  "digit_val c = of_char c - 48"

fun int_digits :: "int \<Rightarrow> string \<Rightarrow> int option" where
  "int_digits acc [] = Some acc"
| "int_digits acc [c] = (if is_digit c then Some (10 * acc + digit_val c) else None)"
| "int_digits acc (c # d # ds) =
     (if is_digit c then int_digits (10 * acc + digit_val c) (d # ds)
      else if c = CHR ''_'' \<and> is_digit d then int_digits (10 * acc + digit_val d) ds
      else None)"

definition parse_digits :: "string \<Rightarrow> int option" where
  "parse_digits s =
     (if length (filter is_digit s) > 4300 then None
      else (case s of
              [] \<Rightarrow> None
            | c # cs \<Rightarrow> if is_digit c then int_digits (digit_val c) cs else None))"

definition is_int_space :: "char \<Rightarrow> bool" where
  \<comment> \<open>the white space \<^verbatim>\<open>int\<close> skips; the separators 28 to 31 are not part of it\<close>
  "is_int_space c = (in_range 9 13 c \<or> of_char c \<in> {32, 133, 160::nat})"

definition int_strip :: "string \<Rightarrow> string" where
  "int_strip s = rev (dropWhile is_int_space (rev (dropWhile is_int_space s)))"

definition py_int :: "string \<Rightarrow> exn + int" where
  "py_int s =
     (case (case int_strip s of
              [] \<Rightarrow> None
            | c # cs \<Rightarrow>
                if c = CHR ''-'' then map_option uminus (parse_digits cs)
                else if c = CHR ''+'' then parse_digits cs
                else parse_digits (c # cs)) of
        None \<Rightarrow> Inl ValueError
      | Some n \<Rightarrow> Inr n)"

text \<open>
  \<^verbatim>\<open>datetime.datetime.fromtimestamp(n)\<close> for an integer \<open>n\<close>, on a 64-bit Linux host whose
  local time is UTC. The result is the instant \<open>n\<close> seconds after the epoch. It exists
  from 0001-01-02 00:00:00 to 9999-12-31 23:59:59; outside, the call raises
  \<^verbatim>\<open>ValueError\<close> (the year is out of range), \<^verbatim>\<open>OSError\<close> when the C library cannot convert
  the time, and \<^verbatim>\<open>OverflowError\<close> when \<open>n\<close> does not fit the platform's \<^verbatim>\<open>time_t\<close>.
\<close>

definition fromtimestamp :: "int \<Rightarrow> exn + int" where
  "fromtimestamp n =
     (if n < - 9223372036854775808 \<or> 9223372036854775807 < n then Inl OverflowError
      else if n < - 67768040609740800 \<or> 67768036191676799 < n then Inl OSError
      else if n < - 62135510400 \<or> 253402300799 < n then Inl ValueError
      else Inr n)"

subsection \<open>Regular expressions\<close>

text \<open>
  The patterns of the module, as syntax trees, and a backtracking matcher in the order
  Python's \<^verbatim>\<open>re\<close> tries alternatives: the left branch of an alternative first, a repetition
  as long as possible first. A matcher state is the character before the position
  (\<open>None\<close> at the start of the text), the rest of the text, and the groups matched so far.
\<close>

datatype re =
    Eps
  | Cls "char \<Rightarrow> bool"
  | Bol
  | WordB
  | Seq re re
  | Alt re re
  | Star re
  | Grp string re

type_synonym mstate = "char option \<times> string \<times> (string \<times> string) list"

fun iter :: "nat \<Rightarrow> (mstate \<Rightarrow> (mstate \<Rightarrow> 'a option) \<Rightarrow> 'a option) \<Rightarrow> mstate
    \<Rightarrow> (mstate \<Rightarrow> 'a option) \<Rightarrow> 'a option" where
  "iter 0 f st k = k st"
| "iter (Suc n) f st k =
     (case f st (\<lambda>st'. if length (fst (snd st')) < length (fst (snd st))
                        then iter n f st' k else None) of
        Some x \<Rightarrow> Some x
      | None \<Rightarrow> k st)"

definition at_boundary :: "char option \<Rightarrow> string \<Rightarrow> bool" where
  \<comment> \<open>\<^verbatim>\<open>\b\<close>: exactly one of the two neighbours is a word character\<close>
  "at_boundary p s = ((case p of None \<Rightarrow> False | Some c \<Rightarrow> is_word c)
                      \<noteq> (case s of [] \<Rightarrow> False | c # _ \<Rightarrow> is_word c))"

fun set_group :: "string \<Rightarrow> string \<Rightarrow> (string \<times> string) list \<Rightarrow> (string \<times> string) list" where
  "set_group n g [] = [(n, g)]"
| "set_group n g ((n', g') # caps) =
     (if n' = n then (n, g) # caps else (n', g') # set_group n g caps)"

primrec rmatch :: "bool \<Rightarrow> re \<Rightarrow> mstate \<Rightarrow> (mstate \<Rightarrow> 'a option) \<Rightarrow> 'a option" where
  "rmatch ic Eps = (\<lambda>st k. k st)"
| "rmatch ic (Cls f) = (\<lambda>st k. case st of (p, s, caps) \<Rightarrow>
      (case s of
         [] \<Rightarrow> None
       | c # cs \<Rightarrow> if f c \<or> (ic \<and> f (swapcase c)) then k (Some c, cs, caps) else None))"
| "rmatch ic Bol = (\<lambda>st k. if fst st = None then k st else None)"
| "rmatch ic WordB = (\<lambda>st k. if at_boundary (fst st) (fst (snd st)) then k st else None)"
| "rmatch ic (Seq a b) = (\<lambda>st k. rmatch ic a st (\<lambda>st'. rmatch ic b st' k))"
| "rmatch ic (Alt a b) = (\<lambda>st k. case rmatch ic a st k of
                                      Some x \<Rightarrow> Some x
                                    | None \<Rightarrow> rmatch ic b st k)"
| "rmatch ic (Star a) = (\<lambda>st k. iter (length (fst (snd st))) (rmatch ic a) st k)"
| "rmatch ic (Grp n a) = (\<lambda>st k. rmatch ic a st (\<lambda>st'. case st' of (p', s', caps') \<Rightarrow>
      k (p', s', set_group n (take (length (fst (snd st)) - length s') (fst (snd st))) caps')))"

text \<open>\<^verbatim>\<open>pattern.match(text)\<close>: at the start of the text only. The result is the groups.\<close>

definition re_match :: "bool \<Rightarrow> re \<Rightarrow> string \<Rightarrow> (string \<times> string) list option" where
  "re_match ic r s = rmatch ic r (None, s, []) (\<lambda>st. Some (snd (snd st)))"

text \<open>\<^verbatim>\<open>pattern.search(text)\<close>: the first position, from the left, where the pattern matches.\<close>

fun search_from :: "bool \<Rightarrow> re \<Rightarrow> char option \<Rightarrow> string \<Rightarrow> (string \<times> string) list option" where
  "search_from ic r p [] = rmatch ic r (p, [], []) (\<lambda>st. Some (snd (snd st)))"
| "search_from ic r p (c # cs) =
     (case rmatch ic r (p, c # cs, []) (\<lambda>st. Some (snd (snd st))) of
        Some g \<Rightarrow> Some g
      | None \<Rightarrow> search_from ic r (Some c) cs)"

definition re_search :: "bool \<Rightarrow> re \<Rightarrow> string \<Rightarrow> (string \<times> string) list option" where
  "re_search ic r s = search_from ic r None s"

text \<open>\<^verbatim>\<open>match.group(name)\<close> of a group that took part in the match.\<close>

definition match_group :: "(string \<times> string) list \<Rightarrow> string \<Rightarrow> string" where
  "match_group caps n = (case map_of caps n of None \<Rightarrow> [] | Some g \<Rightarrow> g)"

definition lit :: "char \<Rightarrow> re" where
  "lit c = Cls (\<lambda>x. x = c)"

fun lits :: "string \<Rightarrow> re" where
  "lits [] = Eps"
| "lits (c # cs) = Seq (lit c) (lits cs)"

definition dot :: re where
  \<comment> \<open>\<^verbatim>\<open>.\<close> without the DOTALL flag\<close>
  "dot = Cls (\<lambda>c. c \<noteq> CHR 0x0A)"

definition opt :: "re \<Rightarrow> re" where
  "opt r = Alt r Eps"

fun upto_n :: "re \<Rightarrow> nat \<Rightarrow> re" where
  "upto_n r 0 = Eps"
| "upto_n r (Suc n) = Alt (Seq r (upto_n r n)) Eps"

fun exactly :: "re \<Rightarrow> nat \<Rightarrow> re" where
  "exactly r 0 = Eps"
| "exactly r (Suc n) = Seq r (exactly r n)"

definition rep :: "re \<Rightarrow> nat \<Rightarrow> nat \<Rightarrow> re" where
  \<comment> \<open>\<^verbatim>\<open>r{lo,hi}\<close>\<close>
  "rep r lo hi = Seq (exactly r lo) (upto_n r (hi - lo))"

definition ticker_chars :: re where
  \<comment> \<open>\<^verbatim>\<open>[A-Z.]\<close>\<close>
  "ticker_chars = Cls (\<lambda>c. is_upper c \<or> c = CHR ''.'')"

definition STOCK_REGEX :: re where
  \<comment> \<open>\<^verbatim>\<open>\$\b(?P<symbol>[A-Z.]{1,5})\b\<close>\<close>
  "STOCK_REGEX =
     Seq (lit CHR ''$'') (Seq WordB (Seq (Grp ''symbol'' (rep ticker_chars 1 5)) WordB))"

definition TELL_REGEX :: re where
  \<comment> \<open>\<^verbatim>\<open>tell (<(#|@)(?P<to_id>[A-Z0-9]*)(|.*)?>) (?P<msg>.*)\<close>\<close>
  "TELL_REGEX =
     Seq (lits ''tell '')
    (Seq (Grp ''1''
            (Seq (lit CHR ''<'')
            (Seq (Grp ''2'' (Alt (lit CHR ''#'') (lit CHR ''@'')))
            (Seq (Grp ''to_id'' (Star (Cls (\<lambda>c. is_upper c \<or> is_digit c))))
            (Seq (opt (Grp ''4'' (Alt Eps (Star dot))))
                 (lit CHR ''>''))))))
    (Seq (lit CHR '' '')
         (Grp ''msg'' (Star dot))))"

definition INSPECT_REGEX :: re where
  \<comment> \<open>\<^verbatim>\<open><@(.*)>\<close>\<close>
  "INSPECT_REGEX = Seq (lits ''<@'') (Seq (Grp ''1'' (Star dot)) (lit CHR ''>''))"

subsection \<open>Messages, the application context and the state\<close>

text \<open>
  A message is the mapping the \<^verbatim>\<open>Message\<close> object wraps. The keys the handlers read
  (\<^verbatim>\<open>text\<close>, \<^verbatim>\<open>user\<close>, \<^verbatim>\<open>channel\<close>, \<^verbatim>\<open>ts\<close>, \<^verbatim>\<open>subtype\<close>, \<^verbatim>\<open>topic\<close>, \<^verbatim>\<open>thread_ts\<close>) hold strings in a
  Slack event, so the mapping is from keys to strings; \<open>m k = None\<close> is a missing key,
  and \<^verbatim>\<open>message[k]\<close> raises \<^verbatim>\<open>KeyError\<close> there.
\<close>

type_synonym message = "string \<rightharpoonup> string"

datatype api_method = CHAT_POST_MESSAGE | REACTIONS_ADD | USERS_INFO

datatype level = DEBUG | ERROR

datatype logarg = ArgStr string | ArgObj json | ArgExn exn

type_synonym log_record = "level \<times> logarg \<times> logarg list"

text \<open>A row of \<^verbatim>\<open>slack.messages\<close>: the columns id, text, user, channel, raw and time.\<close>

record msg_row =
  row_id :: string
  row_text :: "string option"
  row_user :: "string option"
  row_channel :: "string option"
  row_raw :: message
  row_time :: int

datatype pg_call = Insert_message msg_row | Select_channel string | Select_user string

datatype stocks_call = Book string | Logo string | Crypto

text \<open>
  The quote API client \<^verbatim>\<open>app["plugins"]["stocks"]\<close>: what each call returns or raises.
  The crypto listing is a list of dicts.
\<close>

record stocks_plugin =
  book :: "string \<Rightarrow> exn + json"
  logo :: "string \<Rightarrow> exn + json"
  crypto :: "exn + pydict list"

text \<open>
  The application context. \<open>api_query\<close> and \<open>http_request\<close> give what the Slack API and
  the HTTP session answer to a call; the first argument is the number of calls made
  before, so that two calls with the same arguments may be answered differently.
  \<open>stocks\<close> is \<open>None\<close> and \<open>pg\<close> is \<open>False\<close> when the plugin is not loaded.
\<close>

record app =
  bot_user_id :: string
  admins :: "string list"
  api_query :: "nat \<Rightarrow> api_method \<Rightarrow> pydict \<Rightarrow> exn + json"
  http_request :: "nat \<Rightarrow> string \<Rightarrow> exn + int"
  stocks :: "stocks_plugin option"
  pg :: bool

text \<open>
  What the module takes from outside and this development leaves open: the two
  constants imported from \<^verbatim>\<open>.utils\<close>, the text renderings \<^verbatim>\<open>pprint.pformat\<close> and
  \<^verbatim>\<open>json.dumps\<close>, and the two attachment layouts of the quote handlers (lines 62-112 and
  140-196), which format floating-point fields of the quote with f-strings and raise
  when a field is missing. A layout is a function of the symbol and the quote (and the
  logo); every theorem below holds whatever these functions return or raise.
\<close>

record externals =
  ADMIN_CHANNEL :: string
  HELP_FIELD_DESCRIPTIONS :: json
  pformat :: "json \<Rightarrow> string"
  json_dumps :: "pydict \<Rightarrow> string"
  stock_attachments :: "string \<Rightarrow> json \<Rightarrow> json \<Rightarrow> exn + json"
  crypto_attachments :: "string \<Rightarrow> pydict \<Rightarrow> exn + json"

text \<open>
  The state: the received message, what was logged, the calls made (oldest first), and
  the three tables; a row of \<^verbatim>\<open>slack.channels\<close> is its id and its raw column, a row of
  \<^verbatim>\<open>slack.users\<close> its id, its raw column and its join date in ISO format.
\<close>

record state =
  message :: message
  logs :: "log_record list"
  queries :: "(api_method \<times> pydict) list"
  requests :: "string list"
  stocks_calls :: "stocks_call list"
  pg_calls :: "pg_call list"
  messages_table :: "msg_row list"
  channels_table :: "(string \<times> json) list"
  users_table :: "(string \<times> json \<times> string) list"

type_synonym outcome = "(exn + unit) \<times> state"

definition add_log :: "level \<Rightarrow> logarg \<Rightarrow> logarg list \<Rightarrow> state \<Rightarrow> state" where
  "add_log lv msg args s = s\<lparr>logs := logs s @ [(lv, msg, args)]\<rparr>"

text \<open>\<^verbatim>\<open>await app["plugins"]["slack"].api.query(url=..., data=...)\<close>\<close>

definition query :: "app \<Rightarrow> api_method \<Rightarrow> pydict \<Rightarrow> state \<Rightarrow> (exn + json) \<times> state" where
  "query app url data s =
     (api_query app (length (queries s)) url data, s\<lparr>queries := queries s @ [(url, data)]\<rparr>)"

text \<open>A handler's last statement, \<^verbatim>\<open>await ....api.query(url=methods.CHAT_POST_MESSAGE, data=response)\<close>.\<close>

definition post :: "app \<Rightarrow> pydict \<Rightarrow> state \<Rightarrow> outcome" where
  "post app resp s =
     (case query app CHAT_POST_MESSAGE resp s of
        (Inl e, s') \<Rightarrow> (Inl e, s')
      | (Inr _, s') \<Rightarrow> (Inr (), s'))"

text \<open>\<^verbatim>\<open>await app["http_session"].request("GET", url)\<close>, giving the status of the answer.\<close>

definition request :: "app \<Rightarrow> string \<Rightarrow> state \<Rightarrow> (exn + int) \<times> state" where
  "request app url s =
     (http_request app (length (requests s)) url, s\<lparr>requests := requests s @ [url]\<rparr>)"

text \<open>
  Modelled from the spec: \<^verbatim>\<open>Message.response()\<close> belongs to the Slack library. The spec (3)
  says the draft has the channel and the thread of the message, and that its text and
  attachments are to be filled. Reading the channel of a message without one raises.
\<close>

definition response :: "message \<Rightarrow> exn + pydict" where
  "response msg =
     (case msg ''channel'' of
        None \<Rightarrow> Inl (KeyError ''channel'')
      | Some c \<Rightarrow>
          Inr ((''channel'', JStr c)
               # (case msg ''thread_ts'' of None \<Rightarrow> [] | Some t \<Rightarrow> [(''thread_ts'', JStr t)])))"

subsection \<open>The handlers\<close>

definition hello :: "externals \<Rightarrow> app \<Rightarrow> state \<Rightarrow> outcome" where
  "hello ext app s =
     (case response (message s) of
        Inl e \<Rightarrow> (Inl e, s)
      | Inr resp \<Rightarrow>
          (case message s ''user'' of
             None \<Rightarrow> (Inl (KeyError ''user''), s)
           | Some user \<Rightarrow> post app (dict_set ''text'' (JStr (''Hello <@'' @ user @ ''>'')) resp) s))"

definition help_message :: "externals \<Rightarrow> app \<Rightarrow> state \<Rightarrow> outcome" where
  "help_message ext app s =
     (case response (message s) of
        Inl e \<Rightarrow> (Inl e, s)
      | Inr resp \<Rightarrow>
          post app
            (dict_set ''attachments''
               (JList [JObj [(''color'', JStr ''good''), (''fields'', HELP_FIELD_DESCRIPTIONS ext)]])
               (dict_set ''text'' (JStr ''Sir Bot-a-lot help'') resp))
            s)"

definition tell :: "externals \<Rightarrow> app \<Rightarrow> state \<Rightarrow> outcome" where
  "tell ext app s =
     (case message s ''text'' of
        None \<Rightarrow> (Inl (KeyError ''text''), s)
      | Some text \<Rightarrow>
          (case response (message s) of
             Inl e \<Rightarrow> (Inl e, s)
           | Inr resp \<Rightarrow>
               post app
                 (case re_match False TELL_REGEX text of
                    Some match \<Rightarrow>
                      (let to_id = match_group match ''to_id''; msg = match_group match ''msg''
                       in if startswith to_id ''C'' \<or> startswith to_id ''U''
                          then dict_set ''channel'' (JStr to_id) (dict_set ''text'' (JStr msg) resp)
                          else dict_set ''text''
                                 (JStr ''Sorry I can not understand the destination.'') resp)
                  | None \<Rightarrow> dict_set ''text'' (JStr ''Sorry I can not understand'') resp)
                 s))"

text \<open>\<^verbatim>\<open>message.get("text", "")\<close>\<close>

definition text_or_empty :: "message \<Rightarrow> string" where
  "text_or_empty msg = (case msg ''text'' of None \<Rightarrow> [] | Some t \<Rightarrow> t)"

text \<open>
  The body of the \<^verbatim>\<open>try\<close> of \<^verbatim>\<open>stock_quote\<close> (lines 128-131): the quote and the logo URL, or
  the exception that ends it.
\<close>

definition fetch_stock :: "stocks_plugin \<Rightarrow> string \<Rightarrow> state \<Rightarrow> (exn + json \<times> json) \<times> state" where
  "fetch_stock st symbol s =
     (let s1 = s\<lparr>stocks_calls := stocks_calls s @ [Book symbol]\<rparr>
      in case book st symbol of
           Inl e \<Rightarrow> (Inl e, s1)
         | Inr b \<Rightarrow>
             (case getitem b ''quote'' of
                Inl e \<Rightarrow> (Inl e, s1)
              | Inr quote \<Rightarrow>
                  (let s2 = s1\<lparr>stocks_calls := stocks_calls s1 @ [Logo symbol]\<rparr>
                   in case logo st symbol of
                        Inl e \<Rightarrow> (Inl e, s2)
                      | Inr l \<Rightarrow>
                          (case getitem l ''url'' of
                             Inl e \<Rightarrow> (Inl e, s2)
                           | Inr url \<Rightarrow>
                               (Inr (quote, url),
                                add_log DEBUG (ArgStr ''Quote from IEX API: %s'') [ArgObj quote] s2)))))"

definition stock_quote :: "externals \<Rightarrow> app \<Rightarrow> state \<Rightarrow> outcome" where
  "stock_quote ext app s =
     (case re_search False STOCK_REGEX (text_or_empty (message s)) of
        None \<Rightarrow> (Inr (), s)
      | Some match \<Rightarrow>
          (let symbol = match_group match ''symbol'';
               s1 = add_log DEBUG (ArgStr ''Fetching stock quotes for symbol %s'') [ArgStr symbol] s
           in case response (message s1) of
                Inl e \<Rightarrow> (Inl e, s1)
              | Inr resp \<Rightarrow>
                  (case stocks app of
                     None \<Rightarrow> (Inl (KeyError ''stocks''), s1)
                   | Some st \<Rightarrow>
                       (case fetch_stock st symbol s1 of
                          (Inl e, s2) \<Rightarrow>
                            (case e of
                               ClientResponseError status \<Rightarrow>
                                 if status = 404
                                 then post app
                                        (dict_set ''text''
                                           (JStr (''The symbol `'' @ symbol @ ''` could not be found.''))
                                           resp)
                                        s2
                                 else post app
                                        (dict_set ''text''
                                           (JStr ''Unable to retrieve quotes right now.'') resp)
                                        (add_log ERROR (ArgStr ''Error retrieving stock quotes: %s'')
                                           [ArgExn e] s2)
                             | _ \<Rightarrow> (Inl e, s2))
                        | (Inr (quote, logo_url), s2) \<Rightarrow>
                            (case stock_attachments ext symbol quote logo_url of
                               Inl e \<Rightarrow> (Inl e, s2)
                             | Inr att \<Rightarrow> post app (dict_set ''attachments'' att resp) s2)))))"

text \<open>The loop of \<^verbatim>\<open>crypto_quote\<close> (lines 49-53): the first pair whose symbol is the one asked for.\<close>

fun find_pair :: "string \<Rightarrow> pydict list \<Rightarrow> exn + pydict option" where
  "find_pair symbol [] = Inr None"
| "find_pair symbol (c # cs) =
     (case map_of c ''symbol'' of
        None \<Rightarrow> Inl (KeyError ''symbol'')
      | Some v \<Rightarrow> if v = JStr (symbol @ ''USDT'') then Inr (Some c) else find_pair symbol cs)"

text \<open>
  A local variable is bound to a value or not bound yet; reading it unbound raises
  \<^verbatim>\<open>UnboundLocalError\<close>.
\<close>

datatype 'a local_var = Unbound | Bound 'a

text \<open>
  The \<^verbatim>\<open>try\<close> statement of \<^verbatim>\<open>crypto_quote\<close> (lines 46-59). It gives the local variable
  \<^verbatim>\<open>quote\<close> and the response draft as they are after it, or the exception that leaves it.
  \<^verbatim>\<open>quote = None\<close> is the statement after the call of \<^verbatim>\<open>stocks.crypto()\<close>.
\<close>

definition crypto_try ::
    "app \<Rightarrow> string \<Rightarrow> pydict \<Rightarrow> state \<Rightarrow> (exn + pydict option local_var \<times> pydict) \<times> state" where
  "crypto_try app symbol resp s =
     (case stocks app of
        None \<Rightarrow> (Inl (KeyError ''stocks''), s)
      | Some st \<Rightarrow>
          (let s1 = s\<lparr>stocks_calls := stocks_calls s @ [Crypto]\<rparr>
           in case crypto st of
                Inl e \<Rightarrow>
                  (case e of
                     ClientResponseError status \<Rightarrow>
                       (Inr (Unbound, resp),
                        add_log ERROR (ArgStr ''Error retrieving crypto quotes: %s'') [ArgExn e] s1)
                   | _ \<Rightarrow> (Inl e, s1))
              | Inr listing \<Rightarrow>
                  (case find_pair symbol listing of
                     Inl e \<Rightarrow> (Inl e, s1)
                   | Inr None \<Rightarrow>
                       (Inr (Bound None,
                             dict_set ''text''
                               (JStr (''The crypto symbol `'' @ symbol @ ''` could not be found''))
                               resp),
                        add_log DEBUG (ArgStr ''Crypto quote from IEX API: %s'') [ArgObj JNull]
                          (add_log DEBUG
                             (ArgStr ''No crypto currencies found when searching for: %s'')
                             [ArgStr symbol] s1))
                   | Inr (Some quote) \<Rightarrow>
                       (Inr (Bound (Some quote), resp),
                        add_log DEBUG (ArgStr ''Crypto quote from IEX API: %s'')
                          [ArgObj (JObj quote)] s1))))"

definition crypto_quote :: "externals \<Rightarrow> app \<Rightarrow> state \<Rightarrow> outcome" where
  "crypto_quote ext app s =
     (case re_search False STOCK_REGEX (text_or_empty (message s)) of
        None \<Rightarrow> (Inr (), s)
      | Some match \<Rightarrow>
          (let symbol = match_group match ''symbol'';
               s1 = add_log DEBUG (ArgStr ''Fetching crypto quotes for symbol %s'') [ArgStr symbol] s
           in case response (message s1) of
                Inl e \<Rightarrow> (Inl e, s1)
              | Inr resp \<Rightarrow>
                  (case crypto_try app symbol resp s1 of
                     (Inl e, s2) \<Rightarrow> (Inl e, s2)
                   | (Inr (quote_var, resp1), s2) \<Rightarrow>
                       (case quote_var of
                          Unbound \<Rightarrow> (Inl (UnboundLocalError ''quote''), s2)
                        | Bound None \<Rightarrow> post app resp1 s2
                        | Bound (Some quote) \<Rightarrow>
                            (case crypto_attachments ext symbol quote of
                               Inl e \<Rightarrow> (Inl e, s2)
                             | Inr att \<Rightarrow> post app (dict_set ''attachments'' att resp1) s2)))))"

definition mention :: "externals \<Rightarrow> app \<Rightarrow> state \<Rightarrow> outcome" where
  "mention ext app s =
     (case message s ''user'' of
        None \<Rightarrow> (Inl (KeyError ''user''), s)
      | Some user \<Rightarrow>
          if user \<noteq> bot_user_id app
          then (case message s ''channel'' of
                  None \<Rightarrow> (Inl (KeyError ''channel''), s)
                | Some channel \<Rightarrow>
                    (case message s ''ts'' of
                       None \<Rightarrow> (Inl (KeyError ''ts''), s)
                     | Some ts \<Rightarrow>
                         (case query app REACTIONS_ADD
                                 [(''name'', JStr ''sirbot''), (''channel'', JStr channel),
                                  (''timestamp'', JStr ts)] s of
                            (Inl e, s1) \<Rightarrow>
                              (case e of
                                 SlackAPIError err \<Rightarrow>
                                   if err \<noteq> ''already_reacted'' then (Inl e, s1) else (Inr (), s1)
                               | _ \<Rightarrow> (Inl e, s1))
                          | (Inr _, s1) \<Rightarrow> (Inr (), s1))))
          else (Inr (), s))"

text \<open>\<^verbatim>\<open>datetime.datetime.fromtimestamp(int(ts.split(".")[0]))\<close>\<close>

definition timestamp_of :: "string \<Rightarrow> exn + int" where
  "timestamp_of ts =
     (case py_int (takeWhile (\<lambda>c. c \<noteq> CHR ''.'') ts) of
        Inl e \<Rightarrow> Inl e
      | Inr n \<Rightarrow> fromtimestamp n)"

text \<open>
  Modelled from the spec: the schema of \<^verbatim>\<open>slack.messages\<close> is not in this module. The spec
  (4.4, 6) says the table is keyed by the message's identifier, and that the persistence
  handle signals a uniqueness violation as an error of its own kind.
\<close>

definition insert_message :: "msg_row \<Rightarrow> msg_row list \<Rightarrow> exn + msg_row list" where
  "insert_message row tbl =
     (if row_id row \<in> set (map row_id tbl) then Inl UniqueViolationError else Inr (tbl @ [row]))"

definition save_in_database :: "externals \<Rightarrow> app \<Rightarrow> state \<Rightarrow> outcome" where
  "save_in_database ext app s =
     (if pg app
      then (case message s ''ts'' of
              None \<Rightarrow> (Inl (KeyError ''ts''), s)
            | Some ts \<Rightarrow>
                (let s1 = add_log DEBUG (ArgStr ''Saving message \"%s\" to database.'') [ArgStr ts] s
                 in if ts \<noteq> []
                    then (case timestamp_of ts of
                            Inl e \<Rightarrow> (Inl e, s1)
                          | Inr time \<Rightarrow>
                              (let row = \<lparr>row_id = ts, row_text = message s1 ''text'',
                                          row_user = message s1 ''user'',
                                          row_channel = message s1 ''channel'',
                                          row_raw = message s1, row_time = time\<rparr>;
                                   s2 = s1\<lparr>pg_calls := pg_calls s1 @ [Insert_message row]\<rparr>
                               in case insert_message row (messages_table s2) of
                                    Inl e \<Rightarrow>
                                      (case e of
                                         UniqueViolationError \<Rightarrow>
                                           (Inr (),
                                            add_log DEBUG
                                              (ArgStr ''Message \"%s\" already in database.'')
                                              [ArgStr ts] s2)
                                       | _ \<Rightarrow> (Inl e, s2))
                                  | Inr tbl \<Rightarrow> (Inr (), s2\<lparr>messages_table := tbl\<rparr>)))
                    else (Inr (), s1)))
      else (Inr (), s))"

text \<open>\<^verbatim>\<open>channel["raw"]["topic"]["value"]\<close> on the raw column of a channel's row.\<close>

definition topic_value :: "json \<Rightarrow> exn + json" where
  "topic_value raw = (case getitem raw ''topic'' of Inl e \<Rightarrow> Inl e | Inr t \<Rightarrow> getitem t ''value'')"

definition validate_button :: json where
  "validate_button =
     JObj [(''name'', JStr ''validate''), (''text'', JStr ''Validate''),
           (''style'', JStr ''primary''), (''type'', JStr ''button'')]"

definition revert_button :: "string \<Rightarrow> json" where
  "revert_button v =
     JObj [(''name'', JStr ''revert''), (''text'', JStr ''Revert''),
           (''style'', JStr ''danger''), (''value'', JStr v), (''type'', JStr ''button'')]"

definition channel_topic :: "externals \<Rightarrow> app \<Rightarrow> state \<Rightarrow> outcome" where
  "channel_topic ext app s =
     (case message s ''user'' of
        None \<Rightarrow> (Inl (KeyError ''user''), s)
      | Some user \<Rightarrow>
          if user \<notin> set (admins app) \<and> user \<noteq> bot_user_id app
          then if \<not> pg app then (Inl (KeyError ''pg''), s)
               else (case message s ''channel'' of
                  None \<Rightarrow> (Inl (KeyError ''channel''), s)
                | Some chan \<Rightarrow>
                   (let channel = map_of (channels_table s) chan;
                        s1 = add_log DEBUG
                               (case channel of
                                  None \<Rightarrow> ArgObj JNull
                                | Some raw \<Rightarrow> ArgObj (JObj [(''raw'', raw)]))
                               [] (s\<lparr>pg_calls := pg_calls s @ [Select_channel chan]\<rparr>)
                    in case (case channel of
                               None \<Rightarrow> Inr (JStr ''Original topic not found'')
                             | Some raw \<Rightarrow> topic_value raw) of
                         Inl e \<Rightarrow> (Inl e, s1)
                       | Inr old_topic \<Rightarrow>
                          (case message s1 ''topic'' of
                             None \<Rightarrow> (Inl (KeyError ''topic''), s1)
                           | Some topic \<Rightarrow>
                              (let attachment =
                                     [(''fallback'', JStr ''Channel topic changed notice: old topic''),
                                      (''title'',
                                       JStr (''<@'' @ user @ ''> changed <#'' @ chan @ ''> topic.'')),
                                      (''fields'',
                                       JList [JObj [(''title'', JStr ''Previous topic''),
                                                    (''value'', old_topic)],
                                              JObj [(''title'', JStr ''New topic''),
                                                    (''value'', JStr topic)]])];
                                   attachment' =
                                     (if channel \<noteq> None
                                      then dict_set ''actions''
                                             (JList [validate_button,
                                                     revert_button
                                                       (json_dumps ext
                                                          [(''channel'', JStr chan),
                                                           (''old_topic'', old_topic)])])
                                             (dict_set ''callback_id'' (JStr ''topic_change'')
                                                attachment)
                                      else attachment)
                               in post app
                                    [(''channel'', JStr (ADMIN_CHANNEL ext)),
                                     (''attachments'', JList [JObj attachment'])]
                                    s1))))
          else (Inr (), s))"

text \<open>
  The loop of \<^verbatim>\<open>github_repo_link\<close> (lines 339-357), by the number of rounds left: the range
  is computed once, from the text as it was before the loop. Each round reads
  \<^verbatim>\<open>message["text"]\<close> and assigns to it.
\<close>

fun repo_loop :: "nat \<Rightarrow> app \<Rightarrow> pydict \<Rightarrow> state \<Rightarrow> outcome" where
  "repo_loop 0 app resp s = (Inr (), s)"
| "repo_loop (Suc n) app resp s =
     (case message s ''text'' of
        None \<Rightarrow> (Inl (KeyError ''text''), s)
      | Some text \<Rightarrow>
          (let start = py_find text ''g#'' + 2
           in case py_split (slice_from text start) of
                [] \<Rightarrow> (Inl IndexError, s)
              | repo # _ \<Rightarrow>
                  (let len_to_remove = (start + int (length repo)) + 2;
                       s1 = s\<lparr>message := (message s)(''text'' \<mapsto> slice_from text len_to_remove)\<rparr>;
                       repo' = (if CHR ''/'' \<notin> set repo then ''pyslackers/'' @ repo else repo);
                       url = ''https://github.com/'' @ repo'
                   in case request app url s1 of
                        (Inl e, s2) \<Rightarrow> (Inl e, s2)
                      | (Inr status, s2) \<Rightarrow>
                          if status = 200
                          then (case post app (dict_set ''text'' (JStr url) resp) s2 of
                                  (Inl e, s3) \<Rightarrow> (Inl e, s3)
                                | (Inr _, s3) \<Rightarrow>
                                    repo_loop n app (dict_set ''text'' (JStr url) resp) s3)
                          else repo_loop n app resp s2)))"

definition github_repo_link :: "externals \<Rightarrow> app \<Rightarrow> state \<Rightarrow> outcome" where
  "github_repo_link ext app s =
     (case message s ''text'' of
        None \<Rightarrow> (Inr (), s)
      | Some text \<Rightarrow>
          if text = [] then (Inr (), s)
          else (case response (message s) of
                  Inl e \<Rightarrow> (Inl e, s)
                | Inr resp \<Rightarrow> repo_loop (py_count text ''g#'') app resp s))"

text \<open>\<^verbatim>\<open>x[k] = v\<close> with a string key, on a value read from the database.\<close>

fun setitem :: "json \<Rightarrow> string \<Rightarrow> json \<Rightarrow> exn + json" where
  "setitem (JObj d) k v = Inr (JObj (dict_set k v d))"
| "setitem _ k v = Inl TypeError"

text \<open>
  Lines 368-380 of \<^verbatim>\<open>inspect\<close>: the profile from the users table, with the join date added,
  or else from the Slack API.
\<close>

definition fetch_user :: "app \<Rightarrow> string \<Rightarrow> state \<Rightarrow> (exn + json) \<times> state" where
  "fetch_user app user_id s =
     (if \<not> pg app then (Inl (KeyError ''pg''), s)
      else (let s1 = s\<lparr>pg_calls := pg_calls s @ [Select_user user_id]\<rparr>
            in case map_of (users_table s1) user_id of
                 Some (raw, join_date) \<Rightarrow> (setitem raw ''join_date'' (JStr join_date), s1)
               | None \<Rightarrow>
                   (case query app USERS_INFO [(''user'', JStr user_id)] s1 of
                      (Inl e, s2) \<Rightarrow> (Inl e, s2)
                    | (Inr data, s2) \<Rightarrow> (getitem data ''user'', s2))))"

definition inspect :: "externals \<Rightarrow> app \<Rightarrow> state \<Rightarrow> outcome" where
  "inspect ext app s =
     (case message s ''channel'' of
        None \<Rightarrow> (Inl (KeyError ''channel''), s)
      | Some chan \<Rightarrow>
          if chan \<noteq> ADMIN_CHANNEL ext then (Inr (), s)
          else (case message s ''text'' of
                  None \<Rightarrow> (Inr (), s)
                | Some text \<Rightarrow>
                    if text = [] then (Inr (), s)
                    else (case response (message s) of
                            Inl e \<Rightarrow> (Inl e, s)
                          | Inr resp \<Rightarrow>
                              (case re_search False INSPECT_REGEX text of
                                 None \<Rightarrow>
                                   post app
                                     (dict_set ''text''
                                        (JStr (''Sorry I couldn'' @ [CHR 0x27]
                                               @ ''t figure out which user to inspect''))
                                        resp)
                                     s
                               | Some match \<Rightarrow>
                                   (let user_id = match_group match ''1''
                                    in case fetch_user app user_id s of
                                         (Inl e, s1) \<Rightarrow> (Inl e, s1)
                                       | (Inr user, s1) \<Rightarrow>
                                           post app
                                             (dict_set ''text''
                                                (JStr (''<@'' @ user_id @ ''> profile information ''
                                                       @ [CHR 0x0A] @ ''```'' @ pformat ext user
                                                       @ ''```''))
                                                resp)
                                             s1)))))"

subsection \<open>The rules and the dispatcher\<close>

datatype handler_name =
    Hello | Tell | Mention | Save_in_database | Channel_topic | Github_repo_link
  | Inspect | Help_message | Stock_quote | Crypto_quote

definition handler_of :: "handler_name \<Rightarrow> externals \<Rightarrow> app \<Rightarrow> state \<Rightarrow> outcome" where
  "handler_of h =
     (case h of
        Hello \<Rightarrow> hello
      | Tell \<Rightarrow> tell
      | Mention \<Rightarrow> mention
      | Save_in_database \<Rightarrow> save_in_database
      | Channel_topic \<Rightarrow> channel_topic
      | Github_repo_link \<Rightarrow> github_repo_link
      | Inspect \<Rightarrow> inspect
      | Help_message \<Rightarrow> help_message
      | Stock_quote \<Rightarrow> stock_quote
      | Crypto_quote \<Rightarrow> crypto_quote)"

text \<open>
  One call of \<^verbatim>\<open>plugin.on_message\<close>: the pattern, the \<^verbatim>\<open>re.IGNORECASE\<close> flag, the keyword
  arguments \<^verbatim>\<open>mention\<close>, \<^verbatim>\<open>admin\<close>, \<^verbatim>\<open>subtype\<close> and \<^verbatim>\<open>wait\<close> (with the defaults the spec gives
  them: no mention or admin constraint, any subtype, awaited), and the handler.
\<close>

record rule =
  pattern :: re
  ignorecase :: bool
  mention_required :: bool
  admin_required :: bool
  subtype :: "string option"
  wait :: bool
  handler :: handler_name

definition on_message ::
    "re \<Rightarrow> handler_name \<Rightarrow> bool \<Rightarrow> bool \<Rightarrow> bool \<Rightarrow> string option \<Rightarrow> bool \<Rightarrow> rule" where
  "on_message p h ic m a st w =
     \<lparr>pattern = p, ignorecase = ic, mention_required = m, admin_required = a,
      subtype = st, wait = w, handler = h\<rparr>"

text \<open>The patterns of the ten rules (lines 21-34).\<close>

definition HELLO_PATTERN :: re where
  \<comment> \<open>\<^verbatim>\<open>hello\<close>\<close>
  "HELLO_PATTERN = lits ''hello''"

definition TELL_PATTERN :: re where
  \<comment> \<open>\<^verbatim>\<open>^tell\<close>\<close>
  "TELL_PATTERN = Seq Bol (lits ''tell'')"

definition ANY_PATTERN :: re where
  \<comment> \<open>\<^verbatim>\<open>.*\<close>\<close>
  "ANY_PATTERN = Star dot"

definition GITHUB_PATTERN :: re where
  \<comment> \<open>\<^verbatim>\<open>g#\<close>\<close>
  "GITHUB_PATTERN = lits ''g#''"

definition INSPECT_PATTERN :: re where
  \<comment> \<open>\<^verbatim>\<open>^inspect\<close>\<close>
  "INSPECT_PATTERN = Seq Bol (lits ''inspect'')"

definition HELP_PATTERN :: re where
  \<comment> \<open>\<^verbatim>\<open>^help\<close>\<close>
  "HELP_PATTERN = Seq Bol (lits ''help'')"

definition STOCK_PATTERN :: re where
  \<comment> \<open>\<^verbatim>\<open>s\$[A-Z\.]{1,5}\<close>\<close>
  "STOCK_PATTERN = Seq (lits ''s$'') (rep ticker_chars 1 5)"

definition CRYPTO_PATTERN :: re where
  \<comment> \<open>\<^verbatim>\<open>c\$[A-Z\.]{1,5}\<close>\<close>
  "CRYPTO_PATTERN = Seq (lits ''c$'') (rep ticker_chars 1 5)"

definition create_endpoints :: "rule list" where
  "create_endpoints =
     [on_message HELLO_PATTERN Hello True True False None True,
      on_message TELL_PATTERN Tell True True True None True,
      on_message ANY_PATTERN Mention True True False None True,
      on_message ANY_PATTERN Save_in_database False False False None False,
      on_message ANY_PATTERN Channel_topic False False False (Some ''channel_topic'') True,
      on_message GITHUB_PATTERN Github_repo_link False False False None True,
      on_message INSPECT_PATTERN Inspect True True True None True,
      on_message HELP_PATTERN Help_message True True False None True,
      on_message STOCK_PATTERN Stock_quote False False False None False,
      on_message CRYPTO_PATTERN Crypto_quote False False False None False]"

text \<open>
  Modelled from the spec: the router behind \<^verbatim>\<open>plugin.on_message\<close> is not in this module.
  The spec (4.1) says: the pattern is searched against the text, and absent or empty text
  is no match; a mention constraint reads a flag the transport computed; an admin
  constraint holds when the user is an admin; a subtype constraint holds when the
  subtypes are equal, and a rule without one matches any subtype; all are conjoined.
\<close>

definition matches :: "rule \<Rightarrow> app \<Rightarrow> bool \<Rightarrow> message \<Rightarrow> bool" where
  "matches r app mentioned msg =
     ((case msg ''text'' of
         None \<Rightarrow> False
       | Some t \<Rightarrow> t \<noteq> [] \<and> re_search (ignorecase r) (pattern r) t \<noteq> None)
      \<and> (if mention_required r then mentioned else True)
      \<and> (if admin_required r
          then (case msg ''user'' of None \<Rightarrow> False | Some u \<Rightarrow> u \<in> set (admins app))
          else True)
      \<and> (case subtype r of None \<Rightarrow> True | Some st \<Rightarrow> msg ''subtype'' = Some st))"

text \<open>
  Modelled from the spec: the dispatcher is not in this module either. The spec (4.3) says:
  for each rule in registration order the predicates are evaluated, and for every match
  the bound handler is invoked. The result here is the handlers invoked, in that order.
\<close>

fun dispatch :: "rule list \<Rightarrow> app \<Rightarrow> bool \<Rightarrow> message \<Rightarrow> handler_name list" where
  "dispatch [] app mentioned msg = []"
| "dispatch (r # rs) app mentioned msg =
     (if matches r app mentioned msg
      then handler r # dispatch rs app mentioned msg
      else dispatch rs app mentioned msg)"

subsection \<open>Example inputs\<close>

text \<open>
  A context in which every collaborator answers, and a state with empty tables and no
  calls made. The quote API of the example knows no stock symbol and lists two crypto
  pairs.
\<close>

definition ext0 :: externals where
  "ext0 = \<lparr>ADMIN_CHANNEL = ''CADMIN'', HELP_FIELD_DESCRIPTIONS = JList [],
           pformat = (\<lambda>v. ''{}''), json_dumps = (\<lambda>d. ''{}''),
           stock_attachments = (\<lambda>symbol quote logo_url. Inr (JList [])),
           crypto_attachments = (\<lambda>symbol quote. Inr (JList []))\<rparr>"

definition stocks0 :: stocks_plugin where
  "stocks0 = \<lparr>book = (\<lambda>symbol. Inl (ClientResponseError 404)),
               logo = (\<lambda>symbol. Inl (ClientResponseError 404)),
               crypto = Inr [[(''symbol'', JStr ''ETHUSDT'')], [(''symbol'', JStr ''BTCUSDT'')]]\<rparr>"

definition app0 :: app where
  "app0 = \<lparr>bot_user_id = ''UBOT'', admins = [''UADMIN''],
           api_query = (\<lambda>n url data. Inr (JObj [(''ok'', JBool True)])),
           http_request = (\<lambda>n url. Inr 200),
           stocks = Some stocks0, pg = True\<rparr>"

definition msg0 :: "string \<Rightarrow> string \<Rightarrow> message" where
  "msg0 user text =
     [''user'' \<mapsto> user, ''channel'' \<mapsto> ''C1'', ''ts'' \<mapsto> ''1541000000.000100'', ''text'' \<mapsto> text]"

definition state0 :: "message \<Rightarrow> state" where
  "state0 m = \<lparr>message = m, logs = [], queries = [], requests = [], stocks_calls = [],
               pg_calls = [], messages_table = [], channels_table = [], users_table = []\<rparr>"


section \<open>Properties\<close>

subsection \<open>Auxiliary facts\<close>

lemma map_of_dict_set_same: "map_of (dict_set k v d) k = Some v"
  by (induction d) auto

lemma map_of_dict_set_other: "k' \<noteq> k \<Longrightarrow> map_of (dict_set k v d) k' = map_of d k'"
  by (induction d) auto

lemma add_log_fields [simp]:
  "queries (add_log lv msg args s) = queries s"
  "message (add_log lv msg args s) = message s"
  "logs (add_log lv msg args s) = logs s @ [(lv, msg, args)]"
  "pg_calls (add_log lv msg args s) = pg_calls s"
  "messages_table (add_log lv msg args s) = messages_table s"
  "channels_table (add_log lv msg args s) = channels_table s"
  by (simp_all add: add_log_def)

lemma post_queries [simp]:
  "queries (snd (post app resp s)) = queries s @ [(CHAT_POST_MESSAGE, resp)]"
  by (simp add: post_def query_def split: sum.splits)

lemma post_logs [simp]: "logs (snd (post app resp s)) = logs s"
  by (simp add: post_def query_def split: sum.splits)

lemma post_message [simp]: "message (snd (post app resp s)) = message s"
  by (simp add: post_def query_def split: sum.splits)

lemma query_message [simp]: "message (snd (query app url data s)) = message s"
  by (simp add: query_def)

lemma request_message [simp]: "message (snd (request app url s)) = message s"
  by (simp add: request_def)

lemma state0_fields [simp]:
  "message (state0 m) = m" "logs (state0 m) = []" "queries (state0 m) = []"
  "messages_table (state0 m) = []" "channels_table (state0 m) = []"
  by (simp_all add: state0_def)

lemma msg0_fields [simp]:
  "msg0 user t ''user'' = Some user" "msg0 user t ''channel'' = Some ''C1''"
  "msg0 user t ''ts'' = Some ''1541000000.000100''" "msg0 user t ''text'' = Some t"
  "msg0 user t ''thread_ts'' = None" "msg0 user t ''topic'' = None"
  by (simp_all add: msg0_def)

lemma response_msg0 [simp]: "response (msg0 user t) = Inr [(''channel'', JStr ''C1'')]"
  by (simp add: response_def)

text \<open>The patterns on the texts of the examples.\<close>

lemma stock_regex_empty: "re_search False STOCK_REGEX [] = None"
  by (simp add: re_search_def STOCK_REGEX_def lit_def)

lemma stock_regex_aapl: "re_search False STOCK_REGEX ''s$AAPL'' = Some [(''symbol'', ''AAPL'')]"
  by code_simp

lemma stock_regex_btc: "re_search False STOCK_REGEX ''c$BTC'' = Some [(''symbol'', ''BTC'')]"
  by code_simp

lemma stock_regex_doge: "re_search False STOCK_REGEX ''c$DOGE'' = Some [(''symbol'', ''DOGE'')]"
  by code_simp

lemma stock_pattern_aapl: "re_search False STOCK_PATTERN ''s$AAPL'' \<noteq> None"
  by code_simp

lemma hello_pattern_empty: "re_search True HELLO_PATTERN [] = None"
  by code_simp

lemma hello_pattern_scenario: "re_search True HELLO_PATTERN ''<@BOTID> hello'' \<noteq> None"
  by code_simp

text \<open>A repetition with \<^verbatim>\<open>*\<close> matches at every position, so \<^verbatim>\<open>.*\<close> is found in every text.\<close>

lemma iter_total: "(\<And>st. k st \<noteq> None) \<Longrightarrow> iter n f st k \<noteq> None"
  by (induction n arbitrary: st) (auto split: option.splits)

lemma any_pattern_matches: "re_search ic ANY_PATTERN t \<noteq> None"
proof -
  have "rmatch ic (Star dot) (p, s, []) (\<lambda>st. Some (snd (snd st))) \<noteq> None" for p s
    by (simp add: iter_total)
  then have "search_from ic (Star dot) p s \<noteq> None" for p s
    by (cases s) (auto split: option.splits)
  then show ?thesis by (simp add: re_search_def ANY_PATTERN_def)
qed

text \<open>The dispatcher invokes the handlers of the matching rules, each once per rule.\<close>

lemma dispatch_filter:
  "dispatch rs app mentioned m = map handler (filter (\<lambda>r. matches r app mentioned m) rs)"
  by (induction rs) auto

lemma count_dispatch:
  "count_list (dispatch rs app mentioned m) h
   = length (filter (\<lambda>r. matches r app mentioned m) (filter (\<lambda>r. handler r = h) rs))"
  by (induction rs) auto

lemma no_text_no_match:
  "m ''text'' = None \<or> m ''text'' = Some [] \<Longrightarrow> \<not> matches r app mentioned m"
  by (auto simp: matches_def)

lemma rules_of_stock_quote:
  "filter (\<lambda>r. handler r = Stock_quote) create_endpoints
   = [on_message STOCK_PATTERN Stock_quote False False False None False]"
  by (simp add: create_endpoints_def on_message_def)

lemma rules_of_hello:
  "filter (\<lambda>r. handler r = Hello) create_endpoints
   = [on_message HELLO_PATTERN Hello True True False None True]"
  by (simp add: create_endpoints_def on_message_def)

lemma rules_of_mention:
  "filter (\<lambda>r. handler r = Mention) create_endpoints
   = [on_message ANY_PATTERN Mention True True False None True]"
  by (simp add: create_endpoints_def on_message_def)

text \<open>No collaborator call of a handler touches the message.\<close>

lemma fetch_stock_message [simp]: "message (snd (fetch_stock st symbol s)) = message s"
  by (simp add: fetch_stock_def Let_def split: sum.splits)

lemma crypto_try_message [simp]: "message (snd (crypto_try app symbol resp s)) = message s"
  by (simp add: crypto_try_def Let_def split: option.splits sum.splits exn.splits)

lemma fetch_user_message [simp]: "message (snd (fetch_user app user_id s)) = message s"
  by (simp add: fetch_user_def query_def Let_def split: option.splits sum.splits)

text \<open>The messages table keeps one row per identifier.\<close>

lemma one_row_of_distinct:
  "distinct (map row_id tbl) \<Longrightarrow> ts \<in> set (map row_id tbl)
   \<Longrightarrow> length (filter (\<lambda>r. row_id r = ts) tbl) = 1"
proof (induction tbl)
  case Nil
  then show ?case by simp
next
  case (Cons r tbl)
  show ?case
  proof (cases "row_id r = ts")
    case True
    with Cons.prems have "ts \<notin> set (map row_id tbl)" by auto
    then have "filter (\<lambda>r. row_id r = ts) tbl = []"
      by (auto simp: filter_empty_conv)
    with True show ?thesis by simp
  next
    case False
    with Cons show ?thesis by auto
  qed
qed

lemma example_timestamp: "timestamp_of ''1541000000.000100'' = Inr 1541000000"
  by (simp add: timestamp_of_def py_int_def int_strip_def is_int_space_def in_range_def
      parse_digits_def is_digit_def digit_val_def fromtimestamp_def)

subsection \<open>The quote handlers\<close>

text \<open>
  Claim C1 says that \<^verbatim>\<open>crypto_quote\<close> completes without raising when the crypto listing
  fails with a client response error. The code does not: the \<^verbatim>\<open>except\<close> clause logs the
  error, but \<^verbatim>\<open>quote = None\<close> (line 49) stands after the call that failed, so the test
  \<^verbatim>\<open>quote is not None\<close> (line 60) reads a local variable that was never bound. For every
  message the pattern matches, \<^verbatim>\<open>UnboundLocalError\<close> leaves the handler and nothing is posted.
\<close>

theorem crypto_quote_client_error_raises:
  assumes "re_search False STOCK_REGEX (text_or_empty (message s)) = Some match"
    and "response (message s) = Inr resp"
    and "stocks app = Some st"
    and "crypto st = Inl (ClientResponseError status)"
  shows "fst (crypto_quote ext app s) = Inl (UnboundLocalError ''quote'')
         \<and> queries (snd (crypto_quote ext app s)) = queries s
         \<and> logs (snd (crypto_quote ext app s))
             = logs s @ [(DEBUG, ArgStr ''Fetching crypto quotes for symbol %s'',
                          [ArgStr (match_group match ''symbol'')]),
                         (ERROR, ArgStr ''Error retrieving crypto quotes: %s'',
                          [ArgExn (ClientResponseError status)])]"
  using assms by (simp add: crypto_quote_def crypto_try_def Let_def)

theorem crypto_quote_client_error_raises_witness:
  "fst (crypto_quote ext0
          (app0\<lparr>stocks := Some (stocks0\<lparr>crypto := Inl (ClientResponseError 500)\<rparr>)\<rparr>)
          (state0 (msg0 ''U1'' ''c$BTC''))) = Inl (UnboundLocalError ''quote'')
   \<and> queries (snd (crypto_quote ext0
          (app0\<lparr>stocks := Some (stocks0\<lparr>crypto := Inl (ClientResponseError 500)\<rparr>)\<rparr>)
          (state0 (msg0 ''U1'' ''c$BTC'')))) = []"
  using crypto_quote_client_error_raises
          [of "state0 (msg0 ''U1'' ''c$BTC'')" "[(''symbol'', ''BTC'')]" "[(''channel'', JStr ''C1'')]"
              "app0\<lparr>stocks := Some (stocks0\<lparr>crypto := Inl (ClientResponseError 500)\<rparr>)\<rparr>"
              "stocks0\<lparr>crypto := Inl (ClientResponseError 500)\<rparr>" 500 ext0]
  by (simp add: text_or_empty_def stock_regex_btc)

text \<open>
  Claim C4 says that every failure of the quote API other than a 404 yields the text
  \<^verbatim>\<open>Unable to retrieve quotes right now.\<close> The \<^verbatim>\<open>except\<close> clause (line 132) catches
  \<^verbatim>\<open>ClientResponseError\<close> only. When \<^verbatim>\<open>stocks.book\<close> fails with another exception, a timeout
  for one, that exception leaves the handler and no response is posted.
\<close>

theorem stock_quote_other_failure_reraised:
  "fst (stock_quote ext0
          (app0\<lparr>stocks := Some (stocks0\<lparr>book := \<lambda>symbol. Inl (OtherError ''TimeoutError'')\<rparr>)\<rparr>)
          (state0 (msg0 ''U1'' ''s$AAPL''))) = Inl (OtherError ''TimeoutError'')
   \<and> queries (snd (stock_quote ext0
          (app0\<lparr>stocks := Some (stocks0\<lparr>book := \<lambda>symbol. Inl (OtherError ''TimeoutError'')\<rparr>)\<rparr>)
          (state0 (msg0 ''U1'' ''s$AAPL'')))) = []
   \<and> \<not> (\<exists>payload.
          (CHAT_POST_MESSAGE, payload)
            \<in> set (queries (snd (stock_quote ext0
                  (app0\<lparr>stocks := Some (stocks0\<lparr>book := \<lambda>symbol. Inl (OtherError ''TimeoutError'')\<rparr>)\<rparr>)
                  (state0 (msg0 ''U1'' ''s$AAPL'')))))
          \<and> map_of payload ''text'' = Some (JStr ''Unable to retrieve quotes right now.''))"
proof -
  have "stock_quote ext0
          (app0\<lparr>stocks := Some (stocks0\<lparr>book := \<lambda>symbol. Inl (OtherError ''TimeoutError'')\<rparr>)\<rparr>)
          (state0 (msg0 ''U1'' ''s$AAPL''))
        = (Inl (OtherError ''TimeoutError''),
           (state0 (msg0 ''U1'' ''s$AAPL''))
             \<lparr>logs := [(DEBUG, ArgStr ''Fetching stock quotes for symbol %s'', [ArgStr ''AAPL''])],
              stocks_calls := [Book ''AAPL'']\<rparr>)"
    by (simp add: stock_quote_def text_or_empty_def stock_regex_aapl match_group_def Let_def
        app0_def fetch_stock_def add_log_def state0_def)
  then show ?thesis by (simp add: state0_def)
qed

text \<open>
  Claim C4, amended. For a message whose text is \<^verbatim>\<open>s$AAPL\<close> the rules invoke \<^verbatim>\<open>stock_quote\<close>
  once. Let the quote API fail with \<open>e\<close>, while giving the book or while giving the logo.
  When \<open>e\<close> is a client response error, the handler posts one response whose text is
  \<^verbatim>\<open>The symbol `AAPL` could not be found.\<close> if the status is 404 and
  \<^verbatim>\<open>Unable to retrieve quotes right now.\<close> for any other status. When \<open>e\<close> is any other
  exception, it leaves the handler and no response is posted.
\<close>

theorem stock_quote_on_failure:
  assumes "message s ''text'' = Some ''s$AAPL''"
    and "response (message s) = Inr resp"
    and "stocks app = Some st"
    and "book st ''AAPL'' = Inl e
         \<or> (\<exists>b quote. book st ''AAPL'' = Inr b \<and> getitem b ''quote'' = Inr quote
                \<and> logo st ''AAPL'' = Inl e)"
  shows "count_list (dispatch create_endpoints app mentioned (message s)) Stock_quote = 1
         \<and> (case e of
               ClientResponseError status \<Rightarrow>
                 (let payload = dict_set ''text''
                                  (JStr (if status = 404
                                         then ''The symbol `AAPL` could not be found.''
                                         else ''Unable to retrieve quotes right now.''))
                                  resp
                  in queries (snd (stock_quote ext app s))
                       = queries s @ [(CHAT_POST_MESSAGE, payload)]
                     \<and> map_of payload ''text''
                         = Some (JStr (if status = 404
                                       then ''The symbol `AAPL` could not be found.''
                                       else ''Unable to retrieve quotes right now.'')))
             | _ \<Rightarrow>
                 fst (stock_quote ext app s) = Inl e
                 \<and> queries (snd (stock_quote ext app s)) = queries s)"
proof -
  have invoked: "count_list (dispatch create_endpoints app mentioned (message s)) Stock_quote = 1"
    using assms(1)
    by (simp add: count_dispatch rules_of_stock_quote on_message_def matches_def
        stock_pattern_aapl)
  have failed: "fst (fetch_stock st ''AAPL'' s') = Inl e" for s'
    using assms(4) by (auto simp: fetch_stock_def Let_def)
  have unposted: "queries (snd (fetch_stock st ''AAPL'' s')) = queries s'" for s'
    by (simp add: fetch_stock_def Let_def split: sum.splits)
  let ?s1 = "add_log DEBUG (ArgStr ''Fetching stock quotes for symbol %s'') [ArgStr ''AAPL''] s"
  obtain s2 where fetched: "fetch_stock st ''AAPL'' ?s1 = (Inl e, s2)"
    and q2: "queries s2 = queries s"
    using failed [of ?s1] unposted [of ?s1] by (cases "fetch_stock st ''AAPL'' ?s1") auto
  have run: "stock_quote ext app s
      = (case e of
           ClientResponseError status \<Rightarrow>
             if status = 404
             then post app
                    (dict_set ''text'' (JStr ''The symbol `AAPL` could not be found.'') resp) s2
             else post app
                    (dict_set ''text'' (JStr ''Unable to retrieve quotes right now.'') resp)
                    (add_log ERROR (ArgStr ''Error retrieving stock quotes: %s'') [ArgExn e] s2)
         | _ \<Rightarrow> (Inl e, s2))"
    using assms(1,2,3) fetched
    by (cases e)
       (simp_all add: stock_quote_def text_or_empty_def stock_regex_aapl match_group_def Let_def)
  show ?thesis
    using invoked q2 by (cases e) (simp_all add: run Let_def map_of_dict_set_same)
qed

theorem stock_quote_on_failure_witness:
  "count_list (dispatch create_endpoints app0 False (msg0 ''U1'' ''s$AAPL'')) Stock_quote = 1
   \<and> queries (snd (stock_quote ext0 app0 (state0 (msg0 ''U1'' ''s$AAPL''))))
       = [(CHAT_POST_MESSAGE,
           [(''channel'', JStr ''C1''), (''text'', JStr ''The symbol `AAPL` could not be found.'')])]
   \<and> queries (snd (stock_quote ext0
                      (app0\<lparr>stocks := Some (stocks0\<lparr>book := \<lambda>symbol. Inl (ClientResponseError 503)\<rparr>)\<rparr>)
                      (state0 (msg0 ''U1'' ''s$AAPL''))))
       = [(CHAT_POST_MESSAGE,
           [(''channel'', JStr ''C1''), (''text'', JStr ''Unable to retrieve quotes right now.'')])]
   \<and> fst (stock_quote ext0
             (app0\<lparr>stocks := Some (stocks0\<lparr>book := \<lambda>symbol. Inl (OtherError ''TimeoutError'')\<rparr>)\<rparr>)
             (state0 (msg0 ''U1'' ''s$AAPL''))) = Inl (OtherError ''TimeoutError'')"
  using stock_quote_on_failure
          [of "state0 (msg0 ''U1'' ''s$AAPL'')" "[(''channel'', JStr ''C1'')]" app0 stocks0
              "ClientResponseError 404" False ext0]
        stock_quote_on_failure
          [of "state0 (msg0 ''U1'' ''s$AAPL'')" "[(''channel'', JStr ''C1'')]"
              "app0\<lparr>stocks := Some (stocks0\<lparr>book := \<lambda>symbol. Inl (ClientResponseError 503)\<rparr>)\<rparr>"
              "stocks0\<lparr>book := \<lambda>symbol. Inl (ClientResponseError 503)\<rparr>"
              "ClientResponseError 503" False ext0]
        stock_quote_on_failure
          [of "state0 (msg0 ''U1'' ''s$AAPL'')" "[(''channel'', JStr ''C1'')]"
              "app0\<lparr>stocks := Some (stocks0\<lparr>book := \<lambda>symbol. Inl (OtherError ''TimeoutError'')\<rparr>)\<rparr>"
              "stocks0\<lparr>book := \<lambda>symbol. Inl (OtherError ''TimeoutError'')\<rparr>"
              "OtherError ''TimeoutError''" False ext0]
  by (simp add: app0_def stocks0_def Let_def)

text \<open>
  Claim C5. For a message whose text is missing or empty no rule fires, whatever the rules
  are, and the dispatcher has no way to fail; \<^verbatim>\<open>stock_quote\<close> and \<^verbatim>\<open>crypto_quote\<close> return
  normally and leave the state as it was: no log record, no call of a collaborator, no
  response.
\<close>

theorem no_text_no_rule_fires:
  assumes "message s ''text'' = None \<or> message s ''text'' = Some []"
  shows "dispatch rules app mentioned (message s) = []
         \<and> stock_quote ext app s = (Inr (), s)
         \<and> crypto_quote ext app s = (Inr (), s)"
proof -
  have "dispatch rules app mentioned (message s) = []"
    using assms by (simp add: dispatch_filter no_text_no_match)
  moreover have "text_or_empty (message s) = []"
    using assms by (auto simp: text_or_empty_def)
  ultimately show ?thesis
    by (simp add: stock_quote_def crypto_quote_def stock_regex_empty)
qed

theorem no_text_no_rule_fires_witness:
  "dispatch create_endpoints app0 True [''user'' \<mapsto> ''U1'', ''channel'' \<mapsto> ''C1''] = []
   \<and> stock_quote ext0 app0 (state0 [''user'' \<mapsto> ''U1'', ''channel'' \<mapsto> ''C1''])
       = (Inr (), state0 [''user'' \<mapsto> ''U1'', ''channel'' \<mapsto> ''C1''])
   \<and> crypto_quote ext0 app0 (state0 (msg0 ''U1'' [])) = (Inr (), state0 (msg0 ''U1'' []))"
  using no_text_no_rule_fires
          [of "state0 [''user'' \<mapsto> ''U1'', ''channel'' \<mapsto> ''C1'']" create_endpoints app0 True ext0]
        no_text_no_rule_fires [of "state0 (msg0 ''U1'' [])" create_endpoints app0 True ext0]
  by simp

text \<open>
  Claim C6. Let \<open>symbol\<close> be the symbol \<^verbatim>\<open>crypto_quote\<close> extracts from the text, and let the
  listing be a list of pairs that each carry a symbol. The handler takes the first pair
  of the listing whose symbol is \<open>symbol\<close> followed by \<^verbatim>\<open>USDT\<close>: that pair is logged as the
  quote and the attachments posted are those of that pair. When the listing has no such
  pair, the response posted has the text \<^verbatim>\<open>The crypto symbol `symbol` could not be found\<close>.
\<close>

theorem crypto_quote_resolves_by_suffixed_symbol:
  assumes "re_search False STOCK_REGEX (text_or_empty (message s)) = Some match"
    and "match_group match ''symbol'' = symbol"
    and "response (message s) = Inr resp"
    and "stocks app = Some st" and "crypto st = Inr listing"
    and "\<forall>c\<in>set listing. map_of c ''symbol'' \<noteq> None"
  shows "find_pair symbol listing
           = Inr (find (\<lambda>c. map_of c ''symbol'' = Some (JStr (symbol @ ''USDT''))) listing)
         \<and> (case find (\<lambda>c. map_of c ''symbol'' = Some (JStr (symbol @ ''USDT''))) listing of
               None \<Rightarrow>
                 queries (snd (crypto_quote ext app s))
                   = queries s @ [(CHAT_POST_MESSAGE,
                                   dict_set ''text''
                                     (JStr (''The crypto symbol `'' @ symbol
                                            @ ''` could not be found''))
                                     resp)]
             | Some quote \<Rightarrow>
                 (DEBUG, ArgStr ''Crypto quote from IEX API: %s'', [ArgObj (JObj quote)])
                   \<in> set (logs (snd (crypto_quote ext app s)))
                 \<and> (case crypto_attachments ext symbol quote of
                      Inl e \<Rightarrow> fst (crypto_quote ext app s) = Inl e
                    | Inr att \<Rightarrow>
                        queries (snd (crypto_quote ext app s))
                          = queries s @ [(CHAT_POST_MESSAGE, dict_set ''attachments'' att resp)]))"
proof -
  have found: "find_pair symbol listing
      = Inr (find (\<lambda>c. map_of c ''symbol'' = Some (JStr (symbol @ ''USDT''))) listing)"
    using assms(6) by (induction listing) auto
  with assms(1-5) show ?thesis
    by (simp add: crypto_quote_def crypto_try_def Let_def split: option.splits sum.splits)
qed

theorem crypto_quote_resolves_by_suffixed_symbol_witness:
  "queries (snd (crypto_quote ext0 app0 (state0 (msg0 ''U1'' ''c$BTC''))))
     = [(CHAT_POST_MESSAGE, [(''channel'', JStr ''C1''), (''attachments'', JList [])])]
   \<and> (DEBUG, ArgStr ''Crypto quote from IEX API: %s'', [ArgObj (JObj [(''symbol'', JStr ''BTCUSDT'')])])
       \<in> set (logs (snd (crypto_quote ext0 app0 (state0 (msg0 ''U1'' ''c$BTC'')))))
   \<and> queries (snd (crypto_quote ext0 app0 (state0 (msg0 ''U1'' ''c$DOGE''))))
     = [(CHAT_POST_MESSAGE,
         [(''channel'', JStr ''C1''),
          (''text'', JStr ''The crypto symbol `DOGE` could not be found'')])]"
  using crypto_quote_resolves_by_suffixed_symbol
          [of "state0 (msg0 ''U1'' ''c$BTC'')" "[(''symbol'', ''BTC'')]" "''BTC''"
              "[(''channel'', JStr ''C1'')]" app0 stocks0
              "[[(''symbol'', JStr ''ETHUSDT'')], [(''symbol'', JStr ''BTCUSDT'')]]" ext0]
        crypto_quote_resolves_by_suffixed_symbol
          [of "state0 (msg0 ''U1'' ''c$DOGE'')" "[(''symbol'', ''DOGE'')]" "''DOGE''"
              "[(''channel'', JStr ''C1'')]" app0 stocks0
              "[[(''symbol'', JStr ''ETHUSDT'')], [(''symbol'', JStr ''BTCUSDT'')]]" ext0]
  by (simp add: text_or_empty_def stock_regex_btc stock_regex_doge match_group_def app0_def
      stocks0_def ext0_def)

subsection \<open>Saving messages\<close>

text \<open>
  With the database plugin loaded and a non-empty identifier whose part before the dot is
  a timestamp, a delivery stores the message or finds it stored; a delivery to a table that
  holds the identifier already changes no row, executes its one \<^verbatim>\<open>INSERT\<close> and logs twice at
  debug level.
\<close>

lemma save_first:
  assumes "pg app" "message s ''ts'' = Some ts" "ts \<noteq> []" "timestamp_of ts = Inr time"
  shows "fst (save_in_database ext app s) = Inr ()"
    and "ts \<in> set (map row_id (messages_table (snd (save_in_database ext app s))))"
    and "distinct (map row_id (messages_table s))
         \<Longrightarrow> distinct (map row_id (messages_table (snd (save_in_database ext app s))))"
  using assms
  by (auto simp: save_in_database_def Let_def add_log_def insert_message_def split: if_splits)

lemma save_again:
  assumes "pg app" "message s ''ts'' = Some ts" "ts \<noteq> []" "timestamp_of ts = Inr time"
    and "ts \<in> set (map row_id (messages_table s))"
  shows "save_in_database ext app s =
           (Inr (),
            s\<lparr>logs := logs s @ [(DEBUG, ArgStr ''Saving message \"%s\" to database.'', [ArgStr ts]),
                                (DEBUG, ArgStr ''Message \"%s\" already in database.'', [ArgStr ts])],
              pg_calls := pg_calls s @
                [Insert_message \<lparr>row_id = ts, row_text = message s ''text'',
                                 row_user = message s ''user'', row_channel = message s ''channel'',
                                 row_raw = message s, row_time = time\<rparr>]\<rparr>)"
  using assms
  by (simp add: save_in_database_def Let_def add_log_def insert_message_def)

text \<open>
  Claim C2. Let the database plugin be loaded, let the table hold at most one row per
  identifier, and let \<open>ts\<close> be a non-empty identifier whose part before the dot is a
  timestamp. Deliver a message with identifier \<open>ts\<close>, then any message \<open>m\<close> with the same
  identifier. Both deliveries return normally, and after the second the table holds
  exactly one row with identifier \<open>ts\<close>. The second delivery leaves the table as it was,
  executes one \<^verbatim>\<open>INSERT\<close> and no other statement, and logs two records, both at debug level.
\<close>

theorem save_in_database_redelivery:
  assumes "pg app" and "message s ''ts'' = Some ts" and "m ''ts'' = Some ts" and "ts \<noteq> []"
    and "timestamp_of ts = Inr time"
    and "distinct (map row_id (messages_table s))"
  shows "(let r1 = save_in_database ext app s;
              s1 = (snd r1)\<lparr>message := m\<rparr>;
              r2 = save_in_database ext app s1
          in fst r1 = Inr () \<and> fst r2 = Inr ()
             \<and> length (filter (\<lambda>r. row_id r = ts) (messages_table (snd r2))) = 1
             \<and> messages_table (snd r2) = messages_table s1
             \<and> pg_calls (snd r2) = pg_calls s1 @
                  [Insert_message \<lparr>row_id = ts, row_text = m ''text'', row_user = m ''user'',
                                   row_channel = m ''channel'', row_raw = m, row_time = time\<rparr>]
             \<and> logs (snd r2) = logs s1 @
                  [(DEBUG, ArgStr ''Saving message \"%s\" to database.'', [ArgStr ts]),
                   (DEBUG, ArgStr ''Message \"%s\" already in database.'', [ArgStr ts])])"
proof -
  define r1 where "r1 = save_in_database ext app s"
  define s1 where "s1 = (snd r1)\<lparr>message := m\<rparr>"
  have ok1: "fst r1 = Inr ()"
    and stored: "ts \<in> set (map row_id (messages_table (snd r1)))"
    and dist: "distinct (map row_id (messages_table (snd r1)))"
    unfolding r1_def using save_first [OF assms(1,2,4,5)] assms(6) by auto
  have m1: "message s1 ''ts'' = Some ts" and in1: "ts \<in> set (map row_id (messages_table s1))"
    and d1: "distinct (map row_id (messages_table s1))"
    using assms(3) stored dist by (simp_all add: s1_def)
  note again = save_again [OF assms(1) m1 assms(4,5) in1, of ext]
  have one: "length (filter (\<lambda>r. row_id r = ts) (messages_table s1)) = 1"
    using one_row_of_distinct [OF d1 in1] .
  have msg1: "message s1 = m" by (simp add: s1_def)
  show ?thesis
    unfolding Let_def r1_def [symmetric] s1_def [symmetric]
    using ok1 one msg1 by (simp add: again)
qed

theorem save_in_database_redelivery_witness:
  "(let r1 = save_in_database ext0 app0 (state0 (msg0 ''U1'' ''hi''));
        r2 = save_in_database ext0 app0 ((snd r1)\<lparr>message := msg0 ''U2'' ''hi again''\<rparr>)
    in fst r1 = Inr () \<and> fst r2 = Inr ()
       \<and> length (filter (\<lambda>r. row_id r = ''1541000000.000100'') (messages_table (snd r2))) = 1
       \<and> map fst (logs (snd r2)) = [DEBUG, DEBUG, DEBUG])"
proof -
  let ?s = "state0 (msg0 ''U1'' ''hi'')"
  have h1: "pg app0" by (simp add: app0_def)
  have h2: "message ?s ''ts'' = Some ''1541000000.000100''" by simp
  have h3: "msg0 ''U2'' ''hi again'' ''ts'' = Some ''1541000000.000100''" by simp
  have h4: "''1541000000.000100'' \<noteq> []" by simp
  have h6: "distinct (map row_id (messages_table ?s))" by simp
  have l: "map fst (logs (snd (save_in_database ext0 app0 ?s))) = [DEBUG]"
    using h1 by (simp add: save_in_database_def example_timestamp insert_message_def Let_def)
  from save_in_database_redelivery
         [where m = "msg0 ''U2'' ''hi again''" and ext = ext0, OF h1 h2 h3 h4 example_timestamp h6] l
  show ?thesis by (auto simp add: Let_def)
qed

subsection \<open>Topic changes\<close>



subsection \<open>The mention handler\<close>

text \<open>
  Claim C9. When the call that adds the reaction fails, \<^verbatim>\<open>mention\<close> returns normally if and
  only if the failure is the Slack API error \<^verbatim>\<open>already_reacted\<close>; any other failure of
  that call leaves the handler as it was raised.
\<close>

theorem mention_absorbs_only_already_reacted:
  assumes "message s ''user'' = Some user" and "user \<noteq> bot_user_id app"
    and "message s ''channel'' = Some channel" and "message s ''ts'' = Some ts"
    and "api_query app (length (queries s)) REACTIONS_ADD
           [(''name'', JStr ''sirbot''), (''channel'', JStr channel), (''timestamp'', JStr ts)]
         = Inl e"
  shows "fst (mention ext app s)
         = (if e = SlackAPIError ''already_reacted'' then Inr () else Inl e)"
  using assms by (cases e) (simp_all add: mention_def query_def)

theorem mention_absorbs_only_already_reacted_witness:
  "fst (mention ext0 (app0\<lparr>api_query := \<lambda>n url data. Inl (SlackAPIError ''already_reacted'')\<rparr>)
          (state0 (msg0 ''U1'' ''<@UBOT> hello''))) = Inr ()
   \<and> fst (mention ext0 (app0\<lparr>api_query := \<lambda>n url data. Inl (SlackAPIError ''channel_not_found'')\<rparr>)
          (state0 (msg0 ''U1'' ''<@UBOT> hello''))) = Inl (SlackAPIError ''channel_not_found'')"
  using mention_absorbs_only_already_reacted
          [of "state0 (msg0 ''U1'' ''<@UBOT> hello'')" "''U1''"
              "app0\<lparr>api_query := \<lambda>n url data. Inl (SlackAPIError ''already_reacted'')\<rparr>"
              "''C1''" "''1541000000.000100''" "SlackAPIError ''already_reacted''" ext0]
        mention_absorbs_only_already_reacted
          [of "state0 (msg0 ''U1'' ''<@UBOT> hello'')" "''U1''"
              "app0\<lparr>api_query := \<lambda>n url data. Inl (SlackAPIError ''channel_not_found'')\<rparr>"
              "''C1''" "''1541000000.000100''" "SlackAPIError ''channel_not_found''" ext0]
  by (simp add: app0_def)

text \<open>
  Claim C10. For a message whose user is the bot itself, \<^verbatim>\<open>mention\<close> returns without
  calling the Slack API: the state, and with it the list of API calls, is unchanged.
\<close>

theorem mention_skips_own_messages:
  assumes "message s ''user'' = Some (bot_user_id app)"
  shows "mention ext app s = (Inr (), s) \<and> queries (snd (mention ext app s)) = queries s"
  using assms by (simp add: mention_def)

theorem mention_skips_own_messages_witness:
  "message (state0 (msg0 ''UBOT'' ''<@UBOT> hello'')) ''user'' = Some (bot_user_id app0)
   \<and> mention ext0 app0 (state0 (msg0 ''UBOT'' ''<@UBOT> hello''))
       = (Inr (), state0 (msg0 ''UBOT'' ''<@UBOT> hello''))
   \<and> queries (snd (mention ext0 app0 (state0 (msg0 ''UBOT'' ''<@UBOT> hello'')))) = []"
  using mention_skips_own_messages [of "state0 (msg0 ''UBOT'' ''<@UBOT> hello'')" app0 ext0]
  by (simp add: app0_def)

subsection \<open>The dispatcher\<close>

text \<open>
  Claim C8. The handlers the dispatcher invokes are those of all the rules that match, in
  registration order: a match never ends the iteration. In particular, for a message that
  mentions the bot and in whose text \<^verbatim>\<open>hello\<close> is found, both \<^verbatim>\<open>hello\<close> and \<^verbatim>\<open>mention\<close> are
  invoked, each once.
\<close>

theorem all_matching_rules_fire:
  "dispatch rules app mentioned m = map handler (filter (\<lambda>r. matches r app mentioned m) rules)
   \<and> (mentioned \<and> m ''text'' = Some t \<and> re_search True HELLO_PATTERN t \<noteq> None
        \<longrightarrow> count_list (dispatch create_endpoints app mentioned m) Hello = 1
            \<and> count_list (dispatch create_endpoints app mentioned m) Mention = 1)"
proof -
  have nonempty: "t \<noteq> []" if "re_search True HELLO_PATTERN t \<noteq> None"
    using that hello_pattern_empty by auto
  have "count_list (dispatch create_endpoints app mentioned m) Hello = 1
        \<and> count_list (dispatch create_endpoints app mentioned m) Mention = 1"
    if "mentioned" and "m ''text'' = Some t" and "re_search True HELLO_PATTERN t \<noteq> None"
    using that nonempty
    by (simp add: count_dispatch rules_of_hello rules_of_mention on_message_def matches_def
        any_pattern_matches)
  then show ?thesis
    by (simp add: dispatch_filter)
qed

theorem all_matching_rules_fire_witness:
  "dispatch create_endpoints app0 True (msg0 ''U1'' ''<@BOTID> hello'')
     = [Hello, Mention, Save_in_database]
   \<and> count_list (dispatch create_endpoints app0 True (msg0 ''U1'' ''<@BOTID> hello'')) Hello = 1
   \<and> count_list (dispatch create_endpoints app0 True (msg0 ''U1'' ''<@BOTID> hello'')) Mention = 1"
proof -
  have "dispatch create_endpoints app0 True (msg0 ''U1'' ''<@BOTID> hello'')
          = [Hello, Mention, Save_in_database]"
    by code_simp
  moreover have "count_list (dispatch create_endpoints app0 True (msg0 ''U1'' ''<@BOTID> hello'')) Hello = 1
      \<and> count_list (dispatch create_endpoints app0 True (msg0 ''U1'' ''<@BOTID> hello'')) Mention = 1"
    using all_matching_rules_fire
            [of create_endpoints app0 True "msg0 ''U1'' ''<@BOTID> hello''" "''<@BOTID> hello''",
             THEN conjunct2]
    by (simp add: hello_pattern_scenario)
  ultimately show ?thesis by blast
qed

subsection \<open>What the handlers do to the message\<close>

lemma hello_message: "message (snd (hello ext app s)) = message s"
  by (simp add: hello_def split: sum.splits option.splits)

lemma help_message_message: "message (snd (help_message ext app s)) = message s"
  by (simp add: help_message_def split: sum.splits)

lemma tell_message: "message (snd (tell ext app s)) = message s"
  by (simp add: tell_def split: sum.splits option.splits)

lemma mention_message: "message (snd (mention ext app s)) = message s"
  by (simp add: mention_def query_def split: sum.splits option.splits exn.splits)

lemma save_in_database_message: "message (snd (save_in_database ext app s)) = message s"
  by (simp add: save_in_database_def Let_def split: sum.splits option.splits exn.splits)

lemma channel_topic_message: "message (snd (channel_topic ext app s)) = message s"
  by (simp add: channel_topic_def Let_def split: sum.splits option.splits)

lemma inspect_message: "message (snd (inspect ext app s)) = message s"
  by (simp add: inspect_def Let_def case_prod_beta split: sum.splits option.splits)

lemma stock_quote_message: "message (snd (stock_quote ext app s)) = message s"
  by (simp add: stock_quote_def Let_def case_prod_beta
      split: sum.splits option.splits exn.splits)

lemma crypto_quote_message: "message (snd (crypto_quote ext app s)) = message s"
  by (simp add: crypto_quote_def Let_def case_prod_beta
      split: sum.splits option.splits local_var.splits)

text \<open>Each round of the loop of \<^verbatim>\<open>github_repo_link\<close> assigns to the key \<^verbatim>\<open>text\<close> and to no other.\<close>

lemma repo_loop_message:
  "k \<noteq> ''text'' \<Longrightarrow> message (snd (repo_loop n app resp s)) k = message s k"
proof (induction n arbitrary: resp s)
  case 0
  then show ?case by simp
next
  case (Suc n)
  show ?case
  proof (cases "message s ''text''")
    case None
    then show ?thesis by simp
  next
    case (Some t)
    show ?thesis
    proof (cases "py_split (slice_from t (py_find t ''g#'' + 2))")
      case Nil
      with Some show ?thesis by (simp add: Let_def)
    next
      case (Cons repo rest)
      let ?s1 = "s\<lparr>message := (message s)(''text'' \<mapsto>
                   slice_from t (py_find t ''g#'' + 2 + int (length repo) + 2))\<rparr>"
      have s1: "message ?s1 k = message s k" using Suc.prems by simp
      with Some Cons Suc.IH Suc.prems show ?thesis
        by (auto simp: Let_def request_def post_def query_def split: sum.splits prod.splits)
    qed
  qed
qed

lemma github_repo_link_message:
  "k \<noteq> ''text'' \<Longrightarrow> message (snd (github_repo_link ext app s)) k = message s k"
  by (simp add: github_repo_link_def repo_loop_message split: option.splits sum.splits)

lemma github_example:
  "message (snd (github_repo_link ext0 app0 (state0 (msg0 ''U1'' ''g#sirbot'')))) ''text'' = Some []"
  by (simp add: github_repo_link_def py_count_def startswith_def
      py_find_def slice_from_def py_split_def is_space_def in_range_def Let_def request_def
      app0_def post_def query_def)

text \<open>
  Claim C3 says that every handler leaves the received message unchanged, its text in
  particular. \<^verbatim>\<open>github_repo_link\<close> does not: each round of its loop cuts the repository it has
  just read off \<^verbatim>\<open>message["text"]\<close> (line 345). On the text \<^verbatim>\<open>g#sirbot\<close> the handler leaves the
  message with an empty text.
\<close>

theorem github_repo_link_mutates_text:
  "\<not> (\<forall>h ext app s. message (snd (handler_of h ext app s)) = message s)"
proof
  assume "\<forall>h ext app s. message (snd (handler_of h ext app s)) = message s"
  then have "message (snd (handler_of Github_repo_link ext0 app0 (state0 (msg0 ''U1'' ''g#sirbot''))))
             = message (state0 (msg0 ''U1'' ''g#sirbot''))"
    by blast
  then have "message (snd (github_repo_link ext0 app0 (state0 (msg0 ''U1'' ''g#sirbot'')))) ''text''
             = message (state0 (msg0 ''U1'' ''g#sirbot'')) ''text''"
    by (simp add: handler_of_def)
  then show False
    by (simp add: github_example)
qed

text \<open>
  Claim C3, amended. Every handler other than \<^verbatim>\<open>github_repo_link\<close> leaves the received message
  unchanged, and \<^verbatim>\<open>github_repo_link\<close> changes no key of the message other than \<^verbatim>\<open>text\<close>.
\<close>

theorem handlers_leave_message_unchanged:
  "(h \<noteq> Github_repo_link \<longrightarrow> message (snd (handler_of h ext app s)) = message s)
   \<and> (k \<noteq> ''text'' \<longrightarrow> message (snd (handler_of h ext app s)) k = message s k)"
  by (cases h)
     (simp_all add: handler_of_def hello_message tell_message mention_message
        save_in_database_message channel_topic_message github_repo_link_message inspect_message
        help_message_message stock_quote_message crypto_quote_message)

theorem handlers_leave_message_unchanged_witness:
  "message (snd (handler_of Hello ext0 app0 (state0 (msg0 ''U1'' ''<@UBOT> hello''))))
     = msg0 ''U1'' ''<@UBOT> hello''
   \<and> message (snd (handler_of Github_repo_link ext0 app0 (state0 (msg0 ''U1'' ''g#sirbot'')))) ''user''
     = Some ''U1''"
  using handlers_leave_message_unchanged
          [of Hello ext0 app0 "state0 (msg0 ''U1'' ''<@UBOT> hello'')" "''user''"]
        handlers_leave_message_unchanged
          [of Github_repo_link ext0 app0 "state0 (msg0 ''U1'' ''g#sirbot'')" "''user''"]
  by simp

end
